theory Spec2Isabelle
  imports Main "HOL-Library.Sublist"
begin

section \<open>Python values used by \<^verbatim>\<open>cnexp/redo.py\<close>\<close>

text \<open>
  The module \<^verbatim>\<open>cnexp/redo.py\<close> bridges the build tool redo and the batch scheduler
  Slurm. Everything it does is string manipulation and subprocess invocation. Strings
  are \<open>string\<close>; the value \<^verbatim>\<open>None\<close> of an optional argument is \<open>None\<close> of an
  \<open>option\<close>; an argument that is either one value for all targets or a list with one
  value per target (the \<^verbatim>\<open>isinstance(x, list)\<close> tests of the source) is an \<open>arg\<close>.
\<close>

datatype ('s, 'e) arg = Scalar 's | PyList "'e list"

subsection \<open>\<^verbatim>\<open>str(int)\<close>, \<^verbatim>\<open>str.split\<close>, \<^verbatim>\<open>str.join\<close>\<close>

definition digit_char :: "nat \<Rightarrow> char" where
  "digit_char d = ''0123456789'' ! d"

fun str_nat :: "nat \<Rightarrow> string" where
  "str_nat n = (if n < 10 then [digit_char n] else str_nat (n div 10) @ [digit_char (n mod 10)])"

declare str_nat.simps [simp del]

definition str_int :: "int \<Rightarrow> string" where
  "str_int i = (if i < 0 then CHR ''-'' # str_nat (nat (- i)) else str_nat (nat i))"

text \<open>\<^verbatim>\<open>s.split(sep)\<close> for a one-character separator: \<^verbatim>\<open>"".split("\n") == [""]\<close>.\<close>

fun split_acc :: "char \<Rightarrow> string \<Rightarrow> string \<Rightarrow> string list" where
  "split_acc c cur [] = [rev cur]"
| "split_acc c cur (x # xs) =
     (if x = c then rev cur # split_acc c [] xs else split_acc c (x # cur) xs)"

definition split :: "string \<Rightarrow> char \<Rightarrow> string list" where
  "split s c = split_acc c [] s"

fun join :: "string \<Rightarrow> string list \<Rightarrow> string" where
  "join sep [] = []"
| "join sep [x] = x"
| "join sep (x # y # ys) = x @ sep @ join sep (y # ys)"

subsection \<open>\<^verbatim>\<open>pathlib.Path\<close> on a POSIX host\<close>

text \<open>
  A path is its tuple of \<^verbatim>\<open>parts\<close>: the root (\<^verbatim>\<open>/\<close>, or \<^verbatim>\<open>//\<close> for exactly two leading
  slashes) when the path is absolute, then the components, with empty components and
  \<^verbatim>\<open>.\<close> dropped and \<^verbatim>\<open>..\<close> kept.
\<close>

type_synonym path = "string list"

definition path_root :: "string \<Rightarrow> string list" where
  "path_root s =
     (if take 2 s = ''//'' \<and> take 3 s \<noteq> ''///'' then [''//'']
      else if take 1 s = ''/'' then [''/'']
      else [])"

definition Path :: "string \<Rightarrow> path" where
  "Path s = path_root s @ filter (\<lambda>c. c \<noteq> [] \<and> c \<noteq> ''.'') (split s CHR ''/'')"

definition is_root :: "string \<Rightarrow> bool" where
  "is_root r = (r = ''/'' \<or> r = ''//'')"

definition str_path :: "path \<Rightarrow> string" where
  "str_path p =
     (case p of
        [] \<Rightarrow> ''.''
      | r # rest \<Rightarrow> if is_root r then r @ join ''/'' rest else join ''/'' p)"

definition parent :: "path \<Rightarrow> path" where
  "parent p =
     (case p of
        [] \<Rightarrow> []
      | r # rest \<Rightarrow> if is_root r \<and> rest = [] then p else butlast p)"

text \<open>
  \<^verbatim>\<open>p.is_relative_to(other)\<close>: the parts of \<open>other\<close> are a prefix of those of \<open>p\<close>; an
  absolute path is not relative to the empty path \<^verbatim>\<open>.\<close>, which has no parts.
\<close>

definition is_relative_to :: "path \<Rightarrow> path \<Rightarrow> bool" where
  "is_relative_to p other =
     (case other of
        [] \<Rightarrow> (case p of [] \<Rightarrow> True | r # rest \<Rightarrow> \<not> is_root r)
      | r # rest \<Rightarrow> prefix other p)"

subsection \<open>\<^verbatim>\<open>re.match(r"Submitted batch job (\d+)", s)\<close>\<close>

definition is_digit :: "char \<Rightarrow> bool" where
  "is_digit c = (c \<in> set ''0123456789'')"

text \<open>
  The match is anchored at the start of the string; group 1 is the longest run of
  digits after the literal text (the quantifier is greedy). \<open>None\<close> is no match.
  Characters are the 256 characters of \<open>char\<close>, of which \<^verbatim>\<open>\d\<close> matches \<^verbatim>\<open>0\<close> to \<^verbatim>\<open>9\<close>.
\<close>

definition re_match_job :: "string \<Rightarrow> string option" where
  "re_match_job s =
     (if prefix ''Submitted batch job '' s
      then (let ds = takeWhile is_digit (drop (length ''Submitted batch job '') s)
            in if ds = [] then None else Some ds)
      else None)"

section \<open>The outside world\<close>

text \<open>
  A run of the dispatcher is single-threaded and blocking, so what it does to the
  outside is a sequence of calls: subprocess invocations (argument vector and standard
  input), directory creations and sleeps. The trace of calls is the state that the
  model threads through every function. The outside answers a subprocess invocation
  with an exit code and the captured output; the answer may depend on everything that
  happened before, so the world is a function of the trace so far and the call.
  Launching a process is taken to succeed (the executables exist); what is modelled is
  its exit status.
\<close>

record proc =
  returncode :: int
  stdout :: string
  stderr :: string

datatype call = Run "string list" "string option" | Mkdir string | Sleep

type_synonym world = "call list \<Rightarrow> call \<Rightarrow> proc"

record host =
  env_USER :: "string option"
  env_WORK :: "string option"
  fs_resolve :: "path \<Rightarrow> path"

datatype pyerror =
    AssertionError
  | TypeError
  | ValueError
  | RuntimeError string
  | CalledProcessError int

text \<open>\<^verbatim>\<open>subprocess.run\<close>: the process result, whatever the exit code.\<close>

definition subprocess_run :: "world \<Rightarrow> call list \<Rightarrow> string list \<Rightarrow> string option \<Rightarrow> proc \<times> call list" where
  "subprocess_run w tr argv inp = (w tr (Run argv inp), tr @ [Run argv inp])"

text \<open>\<^verbatim>\<open>subprocess.call\<close>: the exit code only.\<close>

definition subprocess_call :: "world \<Rightarrow> call list \<Rightarrow> string list \<Rightarrow> int \<times> call list" where
  "subprocess_call w tr argv = (returncode (w tr (Run argv None)), tr @ [Run argv None])"

text \<open>\<^verbatim>\<open>subprocess.check_output\<close>: raises \<^verbatim>\<open>CalledProcessError\<close> on a non-zero exit.\<close>

definition check_output :: "world \<Rightarrow> call list \<Rightarrow> string list \<Rightarrow> (pyerror + string) \<times> call list" where
  "check_output w tr argv =
     (let p = w tr (Run argv None); tr1 = tr @ [Run argv None]
      in if returncode p \<noteq> 0 then (Inl (CalledProcessError (returncode p)), tr1)
         else (Inr (stdout p), tr1))"

section \<open>The functions of \<^verbatim>\<open>cnexp/redo.py\<close>\<close>

subsection \<open>\<^verbatim>\<open>redo\<close>, \<^verbatim>\<open>redo_ifchange\<close>\<close>

text \<open>
  The targets are one path or a list of paths; one path is wrapped into a list. The
  paths are given by their strings, which is what the child process receives.
\<close>

definition redo :: "world \<Rightarrow> call list \<Rightarrow> (string, string) arg \<Rightarrow> string \<Rightarrow> int \<times> call list" where
  "redo w tr deplist exe =
     subprocess_call w tr (exe # (case deplist of Scalar dep \<Rightarrow> [dep] | PyList deps \<Rightarrow> deps))"

definition redo_ifchange :: "world \<Rightarrow> call list \<Rightarrow> (string, string) arg \<Rightarrow> int \<times> call list" where
  "redo_ifchange w tr deplist = redo w tr deplist ''redo-ifchange''"

subsection \<open>\<^verbatim>\<open>_is_gpu_partition\<close>\<close>

definition is_gpu_partition :: "string option \<Rightarrow> bool" where
  "is_gpu_partition p =
     (p \<in> set [Some ''gpu-2080ti'', Some ''gpu-2080ti-dev'', Some ''gpu-2080ti-preemptable'',
               Some ''gpu-v100'', Some ''gpu-v100-preemptable''])"

subsection \<open>\<^verbatim>\<open>_redo_ood_list\<close>\<close>

text \<open>
  The oracle \<^verbatim>\<open>redo-ood\<close> is run on the path strings of all targets; \<open>stdout\<close> is its
  output as decoded text, split at line feeds.
\<close>

definition redo_ood_list :: "world \<Rightarrow> call list \<Rightarrow> path list \<Rightarrow> bool list \<times> call list" where
  "redo_ood_list w tr deplist =
     (let (ood_proc, tr1) = subprocess_run w tr (''redo-ood'' # map str_path deplist) None
      in if returncode ood_proc = 0
         then (let ood_list = split (stdout ood_proc) CHR 0x0A
               in (map (\<lambda>dep. str_path dep \<in> set ood_list) deplist, tr1))
         else (map (\<lambda>_. True) deplist, tr1))"

subsection \<open>\<^verbatim>\<open>_redo_filter_list\<close>\<close>

text \<open>The comprehension \<^verbatim>\<open>[l for l, b in zip(list_maybe, bools) if b]\<close> of the list branch.\<close>

definition filter_by :: "'a list \<Rightarrow> bool list \<Rightarrow> 'a list" where
  "filter_by xs bools = map fst (filter snd (zip xs bools))"

definition redo_filter_list :: "('s, 'e) arg \<Rightarrow> bool list \<Rightarrow> ('s, 'e) arg" where
  "redo_filter_list list_maybe bools =
     (case list_maybe of
        Scalar v \<Rightarrow> Scalar v
      | PyList xs \<Rightarrow> PyList (filter_by xs bools))"

text \<open>
  The dispatcher also applies \<^verbatim>\<open>_redo_filter_list\<close> to the target list, which line 50
  has built as a list; there the result is \<open>filter_by\<close> of the list.
\<close>

subsection \<open>\<^verbatim>\<open>_slurm_launch_and_wait\<close>\<close>

text \<open>One tuple of the \<^verbatim>\<open>zip\<close> that the submission loop iterates over.\<close>

record job =
  job_name :: string
  job_dep :: path
  job_part :: "string option"
  job_n_cpu :: "int option"
  job_m :: "string option"
  job_t :: "string option"

text \<open>\<^verbatim>\<open>[x] * len(deplist)\<close> unless \<open>x\<close> is a list already.\<close>

definition broadcast :: "nat \<Rightarrow> ('e, 'e) arg \<Rightarrow> 'e list" where
  "broadcast n a = (case a of Scalar v \<Rightarrow> replicate n v | PyList xs \<Rightarrow> xs)"

text \<open>\<^verbatim>\<open>f"redo{i:02d}"\<close>: the index in decimal, padded with zeros to two digits.\<close>

definition default_name :: "nat \<Rightarrow> string" where
  "default_name i = ''redo'' @ (if i < 10 then ''0'' @ str_nat i else str_nat i)"

definition job_names :: "nat \<Rightarrow> (string option, string) arg \<Rightarrow> string list" where
  "job_names n names =
     (case names of
        Scalar None \<Rightarrow> map default_name [0..<n]
      | Scalar (Some s) \<Rightarrow> replicate n s
      | PyList xs \<Rightarrow> xs)"

text \<open>
  \<^verbatim>\<open>zip(names, deplist, partition, n_cpus, mem, time_str)\<close>, after the scalars have been
  repeated: it stops at the shortest of the six lists.
\<close>

definition launch_jobs ::
  "path list \<Rightarrow> (string option, string option) arg \<Rightarrow> (int option, int option) arg \<Rightarrow>
   (string option, string option) arg \<Rightarrow> (string option, string option) arg \<Rightarrow>
   (string option, string) arg \<Rightarrow> job list" where
  "launch_jobs deplist partition' n_cpus mem time_str names =
     (let n = length deplist
      in map (\<lambda>(name, dep, part, n_cpu, m, t).
                \<lparr>job_name = name, job_dep = dep, job_part = part, job_n_cpu = n_cpu,
                 job_m = m, job_t = t\<rparr>)
           (zip (job_names n names) (zip deplist (zip (broadcast n partition')
             (zip (broadcast n n_cpus) (zip (broadcast n mem) (broadcast n time_str)))))))"

text \<open>The list \<^verbatim>\<open>sbatch_args\<close>, built by the four tests and the GPU test in turn.\<close>

definition sbatch_args :: "job \<Rightarrow> string list" where
  "sbatch_args j =
     (let a0 = [];
          a1 = (case job_part j of None \<Rightarrow> a0 | Some part \<Rightarrow> a0 @ [''--partition'', part]);
          a2 = (case job_n_cpu j of None \<Rightarrow> a1 | Some n_cpu \<Rightarrow> a1 @ [''--cpus-per-task'', str_int n_cpu]);
          a3 = (case job_m j of None \<Rightarrow> a2 | Some m \<Rightarrow> a2 @ [''--mem'', m]);
          a4 = (case job_t j of None \<Rightarrow> a3 | Some t \<Rightarrow> a3 @ [''--time'', t])
      in if is_gpu_partition (job_part j) then a4 @ [''--gres=gpu:1''] else a4)"

text \<open>The texts of the five flags that \<open>sbatch_args\<close> can hold.\<close>

definition flag_texts :: "string list" where
  "flag_texts = [''--partition'', ''--cpus-per-task'', ''--mem'', ''--time'', ''--gres=gpu:1'']"

definition sbatch_argv :: "job \<Rightarrow> string list" where
  "sbatch_argv j = [''sbatch''] @ sbatch_args j @ [''--job-name'', job_name j]"

definition job_script :: "job \<Rightarrow> string" where
  "job_script j =
     ''#!/bin/sh'' @ [CHR 0x0A] @ ''redo-ifchange '' @ [CHR 0x27] @ str_path (job_dep j)
       @ [CHR 0x27, CHR 0x0A]"

definition sbatch_failed :: "proc \<Rightarrow> pyerror" where
  "sbatch_failed p =
     RuntimeError (''sbatch subprocess failed: exit code '' @ str_int (returncode p)
                   @ [CHR 0x0A] @ stderr p)"

text \<open>
  The submission loop. Each round creates the target's parent directory, runs
  \<^verbatim>\<open>sbatch\<close> with the job script on standard input, raises \<^verbatim>\<open>RuntimeError\<close> on a
  non-zero exit, and reads the job id off the output; \<^verbatim>\<open>re.match(...)[1]\<close> raises
  \<^verbatim>\<open>TypeError\<close> when there is no match, since \<^verbatim>\<open>None\<close> cannot be subscripted. The
  environment handed to the child (the process environment without four variables of
  redo) does not influence the control flow and is not part of the call.
\<close>

fun submit_jobs :: "world \<Rightarrow> call list \<Rightarrow> job list \<Rightarrow> string list \<Rightarrow> (pyerror + string list) \<times> call list" where
  "submit_jobs w tr [] job_ids = (Inr job_ids, tr)"
| "submit_jobs w tr (j # js) job_ids =
     (let tr1 = tr @ [Mkdir (str_path (parent (job_dep j)))];
          (p, tr2) = subprocess_run w tr1 (sbatch_argv j) (Some (job_script j))
      in if returncode p \<noteq> 0 then (Inl (sbatch_failed p), tr2)
         else (case re_match_job (stdout p) of
                 None \<Rightarrow> (Inl TypeError, tr2)
               | Some slurm_job_id \<Rightarrow> submit_jobs w tr2 js (job_ids @ [slurm_job_id])))"

text \<open>The two calls of one round of the loop, for describing traces.\<close>

definition submit_calls :: "job \<Rightarrow> call list" where
  "submit_calls j = [Mkdir (str_path (parent (job_dep j))), Run (sbatch_argv j) (Some (job_script j))]"

definition squeue_argv :: "string \<Rightarrow> string \<Rightarrow> string \<Rightarrow> string list" where
  "squeue_argv user jobs_str names_str =
     [''squeue'', ''--noheader'', ''--user'', user, ''--jobs'', jobs_str, ''--name'', names_str,
      ''--states=RUNNING,PENDING,COMPLETING,PREEMPTED'']"

text \<open>
  The polling loop: \<^verbatim>\<open>while len(check_output(squeue ...)) > 0: time.sleep(0.5)\<close>. It has
  no bound, so the model is partial: \<open>None\<close> is a run that polls forever.
\<close>

partial_function (option) poll :: "world \<Rightarrow> string list \<Rightarrow> call list \<Rightarrow> ((pyerror + unit) \<times> call list) option" where
  "poll w argv tr =
     (case check_output w tr argv of
        (Inl e, tr1) \<Rightarrow> Some (Inl e, tr1)
      | (Inr out, tr1) \<Rightarrow>
          if length out > 0 then poll w argv (tr1 @ [Sleep]) else Some (Inr (), tr1))"

text \<open>The calls of \<open>n\<close> rounds of the loop that found jobs still active, for describing traces.\<close>

definition polls :: "string list \<Rightarrow> nat \<Rightarrow> call list" where
  "polls argv n = concat (replicate n [Run argv None, Sleep])"

definition slurm_launch_and_wait ::
  "world \<Rightarrow> call list \<Rightarrow> path list \<Rightarrow> string \<Rightarrow> (string option, string option) arg \<Rightarrow>
   (int option, int option) arg \<Rightarrow> (string option, string option) arg \<Rightarrow>
   (string option, string option) arg \<Rightarrow> (string option, string) arg \<Rightarrow>
   ((pyerror + unit) \<times> call list) option" where
  "slurm_launch_and_wait w tr deplist user partition' n_cpus mem time_str names =
     (let names1 = job_names (length deplist) names
      in case submit_jobs w tr (launch_jobs deplist partition' n_cpus mem time_str names) [] of
           (Inl e, tr1) \<Rightarrow> Some (Inl e, tr1)
         | (Inr job_ids, tr1) \<Rightarrow>
             poll w (squeue_argv user (join '','' job_ids) (join '','' names1)) tr1)"

subsection \<open>\<^verbatim>\<open>redo_ifchange_slurm\<close>\<close>

text \<open>The list comprehension that calls \<^verbatim>\<open>redo_ifchange(dep)\<close> once per GPU target.\<close>

fun redo_each :: "world \<Rightarrow> call list \<Rightarrow> string list \<Rightarrow> int list \<times> call list" where
  "redo_each w tr [] = ([], tr)"
| "redo_each w tr (dep # deps) =
     (let (rc, tr1) = redo_ifchange w tr (Scalar dep);
          (rcs, tr2) = redo_each w tr1 deps
      in (rc # rcs, tr2))"

definition local_dispatch ::
  "world \<Rightarrow> call list \<Rightarrow> string list \<Rightarrow> (string option, string option) arg \<Rightarrow> (pyerror + unit) \<times> call list" where
  "local_dispatch w tr deplist partition' =
     (let partitions = broadcast (length deplist) partition';
          (rcs, tr1) = redo_each w tr
             (map fst (filter (\<lambda>(dep, p). is_gpu_partition p) (zip deplist partitions)));
          (rc, tr2) = redo_ifchange w tr1
             (PyList (map fst (filter (\<lambda>(dep, p). \<not> is_gpu_partition p) (zip deplist partitions))))
      in (Inr (), tr2))"

definition remote_dispatch ::
  "host \<Rightarrow> world \<Rightarrow> call list \<Rightarrow> string list \<Rightarrow> (string option, string option) arg \<Rightarrow>
   (int option, int option) arg \<Rightarrow> (string option, string option) arg \<Rightarrow>
   (string option, string option) arg \<Rightarrow> (string option, string) arg \<Rightarrow>
   ((pyerror + unit) \<times> call list) option" where
  "remote_dispatch h w tr deplist0 partition' n_cpus mem time_str name =
     (let deplist = map Path deplist0
      in case env_WORK h of
           None \<Rightarrow> Some (Inl TypeError, tr)
         | Some work \<Rightarrow>
             (let workdir = Path work
              in if \<not> list_all (\<lambda>dep. is_relative_to (fs_resolve h dep) workdir) deplist
                 then Some (Inl AssertionError, tr)
                 else (let (is_ood, tr1) = redo_ood_list w tr deplist
                       in case slurm_launch_and_wait w tr1 (filter_by deplist is_ood) ''jnboehm91''
                                 (redo_filter_list partition' is_ood)
                                 (redo_filter_list n_cpus is_ood)
                                 mem
                                 (redo_filter_list time_str is_ood)
                                 (redo_filter_list name is_ood) of
                            None \<Rightarrow> None
                          | Some (Inl e, tr2) \<Rightarrow> Some (Inl e, tr2)
                          | Some (Inr u, tr2) \<Rightarrow>
                              (let (rc, tr3) = redo_ifchange w tr2 (PyList (map str_path deplist))
                               in Some (Inr (), tr3)))))"

text \<open>
  The dispatcher: the branch is chosen by \<^verbatim>\<open>$USER\<close>. The target list is a list of
  strings. \<open>local_dispatch\<close> is the body of the first branch, \<open>remote_dispatch\<close> that of
  the second, where \<open>user\<close> is \<^verbatim>\<open>"jnboehm91"\<close>.
\<close>

definition redo_ifchange_slurm ::
  "host \<Rightarrow> world \<Rightarrow> call list \<Rightarrow> string list \<Rightarrow> (string option, string option) arg \<Rightarrow>
   (int option, int option) arg \<Rightarrow> (string option, string option) arg \<Rightarrow>
   (string option, string option) arg \<Rightarrow> (string option, string) arg \<Rightarrow>
   ((pyerror + unit) \<times> call list) option" where
  "redo_ifchange_slurm h w tr deplist partition' n_cpus mem time_str name =
     (let user = env_USER h
      in if user = Some ''nboehm'' then Some (local_dispatch w tr deplist partition')
         else if user = Some ''jnboehm91''
         then remote_dispatch h w tr deplist partition' n_cpus mem time_str name
         else Some (Inl ValueError, tr))"

section \<open>Concrete hosts, worlds and jobs for the examples\<close>

definition proc_of :: "int \<Rightarrow> string \<Rightarrow> proc" where
  "proc_of rc out = \<lparr>returncode = rc, stdout = out, stderr = []\<rparr>"

definition job_gpu :: job where
  "job_gpu = \<lparr>job_name = ''redo00'', job_dep = [''/'', ''work'', ''a.out''],
              job_part = Some ''gpu-v100'', job_n_cpu = Some 4, job_m = None,
              job_t = Some ''1-00:00''\<rparr>"

definition host_remote :: host where
  "host_remote = \<lparr>env_USER = Some ''jnboehm91'', env_WORK = Some ''/work'', fs_resolve = (\<lambda>p. p)\<rparr>"

definition job_a :: job where
  "job_a = \<lparr>job_name = ''redo00'', job_dep = [''/'', ''work'', ''a.out''],
            job_part = Some ''cpu-short'', job_n_cpu = None, job_m = None, job_t = None\<rparr>"

definition job_b :: job where
  "job_b = \<lparr>job_name = ''redo01'', job_dep = [''/'', ''work'', ''b.out''],
            job_part = Some ''cpu-short'', job_n_cpu = None, job_m = None, job_t = None\<rparr>"

text \<open>The oracle fails, the first submission is acknowledged, every later call gets \<open>p\<close>.\<close>

definition world_submit :: "proc \<Rightarrow> world" where
  "world_submit p tr c =
     (if length tr = 0 then proc_of 1 []
      else if length tr = 2 then proc_of 0 ''Submitted batch job 17\<newline>''
      else p)"

definition host_local :: host where
  "host_local = \<lparr>env_USER = Some ''nboehm'', env_WORK = None, fs_resolve = (\<lambda>p. p)\<rparr>"

text \<open>The oracle reports the second target stale; the submission is acknowledged.\<close>

definition world_one_stale :: world where
  "world_one_stale tr c =
     (if length tr = 0 then proc_of 0 ''/work/b.out\<newline>''
      else if length tr = 2 then proc_of 0 ''Submitted batch job 17\<newline>''
      else proc_of 0 [])"

definition job_b_mem :: job where
  "job_b_mem = \<lparr>job_name = ''redo00'', job_dep = [''/'', ''work'', ''b.out''],
                job_part = Some ''gpu-v100'', job_n_cpu = None, job_m = Some ''1G'', job_t = None\<rparr>"

section \<open>The partition classifier\<close>

text \<open>
  C8: \<open>is_gpu_partition p\<close> holds exactly when \<open>p\<close> is one of the five names listed in
  the source; \<^verbatim>\<open>None\<close> and every other name, the commented-out interactive partition
  among them, classify as non-GPU. The function is a function of its argument alone: it
  neither reads nor extends the trace of calls.
\<close>

theorem is_gpu_partition_iff:
  "(is_gpu_partition p \<longleftrightarrow>
      (\<exists>s. p = Some s \<and> s \<in> {''gpu-2080ti'', ''gpu-2080ti-dev'', ''gpu-2080ti-preemptable'',
                               ''gpu-v100'', ''gpu-v100-preemptable''}))
   \<and> \<not> is_gpu_partition None
   \<and> \<not> is_gpu_partition (Some ''gpu-2080ti-interactive'')"
proof (intro conjI)
  show "is_gpu_partition p \<longleftrightarrow>
      (\<exists>s. p = Some s \<and> s \<in> {''gpu-2080ti'', ''gpu-2080ti-dev'', ''gpu-2080ti-preemptable'',
                               ''gpu-v100'', ''gpu-v100-preemptable''})"
    by (cases p) (simp_all add: is_gpu_partition_def)
  show "\<not> is_gpu_partition None"
    by (simp add: is_gpu_partition_def)
  show "\<not> is_gpu_partition (Some ''gpu-2080ti-interactive'')"
    by (simp add: is_gpu_partition_def)
qed

section \<open>The staleness filter\<close>

lemma str_path_a: "str_path [''/'', ''work'', ''a.out''] = ''/work/a.out''"
  by (simp add: str_path_def is_root_def)

lemma str_path_b: "str_path [''/'', ''work'', ''b.out''] = ''/work/b.out''"
  by (simp add: str_path_def is_root_def)

text \<open>
  C3: whatever the oracle answers, \<open>redo_ood_list\<close> returns one boolean per target, in
  the order of the targets; when the oracle exits with 0, the boolean of target \<open>i\<close>
  says whether the target's path string is one of the lines of the oracle's output.
\<close>

theorem redo_ood_list_stale:
  "length (fst (redo_ood_list w tr deplist)) = length deplist \<and>
   (returncode (w tr (Run (''redo-ood'' # map str_path deplist) None)) = 0 \<longrightarrow>
      (\<forall>i < length deplist.
         fst (redo_ood_list w tr deplist) ! i =
           (str_path (deplist ! i) \<in>
              set (split (stdout (w tr (Run (''redo-ood'' # map str_path deplist) None))) CHR 0x0A))))"
  by (simp add: redo_ood_list_def subprocess_run_def Let_def)

theorem redo_ood_list_stale_witness:
  "returncode (proc_of 0 ''/work/b.out\<newline>'') = 0 \<and>
   fst (redo_ood_list (\<lambda>tr c. proc_of 0 ''/work/b.out\<newline>'') []
          [[''/'', ''work'', ''a.out''], [''/'', ''work'', ''b.out'']]) = [False, True]"
proof -
  let ?w = "\<lambda>(tr :: call list) (c :: call). proc_of 0 ''/work/b.out\<newline>''"
  let ?deps = "[[''/'', ''work'', ''a.out''], [''/'', ''work'', ''b.out'']]"
  let ?r = "fst (redo_ood_list ?w [] ?deps)"
  have rc: "returncode (proc_of 0 ''/work/b.out\<newline>'') = 0"
    by (simp add: proc_of_def)
  have lines: "split (stdout (proc_of 0 ''/work/b.out\<newline>'')) CHR 0x0A = [''/work/b.out'', []]"
    by (simp add: proc_of_def split_def)
  note inst = redo_ood_list_stale [of ?w "[]" ?deps]
  from inst have len: "length ?r = length ?deps"
    by (rule conjunct1)
  from inst rc
  have el: "\<forall>i<length ?deps. ?r ! i =
      (str_path (?deps ! i) \<in> set (split (stdout (proc_of 0 ''/work/b.out\<newline>'')) CHR 0x0A))"
    by blast
  from el [rule_format, of 0] have "?r ! 0 = False"
    by (simp add: str_path_a lines)
  moreover from el [rule_format, of 1] have "?r ! 1 = True"
    by (simp add: str_path_b lines)
  ultimately have "?r = [False, True]"
    using len by (simp add: list_eq_iff_nth_eq less_Suc_eq numeral_2_eq_2)
  with rc show ?thesis by simp
qed

text \<open>
  C4: when the oracle exits with a code other than 0, every target is reported stale,
  whatever the oracle printed.
\<close>

theorem redo_ood_list_failure:
  "returncode (w tr (Run (''redo-ood'' # map str_path deplist) None)) \<noteq> 0 \<Longrightarrow>
   redo_ood_list w tr deplist =
     (replicate (length deplist) True, tr @ [Run (''redo-ood'' # map str_path deplist) None])"
  by (simp add: redo_ood_list_def subprocess_run_def Let_def map_replicate_const)

theorem redo_ood_list_failure_witness:
  "returncode (proc_of 1 []) \<noteq> 0 \<and>
   fst (redo_ood_list (\<lambda>tr c. proc_of 1 []) []
          [[''/'', ''work'', ''a.out''], [''/'', ''work'', ''b.out'']]) = [True, True]"
proof -
  have rc: "returncode (proc_of 1 []) \<noteq> 0"
    by (simp add: proc_of_def)
  from redo_ood_list_failure [of "\<lambda>tr c. proc_of 1 []" "[]"
         "[[''/'', ''work'', ''a.out''], [''/'', ''work'', ''b.out'']]", OF rc]
  show ?thesis using rc by (simp add: numeral_2_eq_2)
qed

section \<open>The workspace precondition of the remote mode\<close>

lemma Path_home_b: "Path ''/home/b.out'' = [''/'', ''home'', ''b.out'']"
  by (simp add: Path_def path_root_def split_def)

lemma Path_work: "Path ''/work'' = [''/'', ''work'']"
  by (simp add: Path_def path_root_def split_def)

text \<open>
  C5: in the remote mode (\<^verbatim>\<open>$USER\<close> is \<^verbatim>\<open>jnboehm91\<close>) with the workspace root \<^verbatim>\<open>$WORK\<close>
  set, a target whose resolved path is not below the root makes the dispatcher raise
  \<^verbatim>\<open>AssertionError\<close> with the trace of calls unchanged: no subprocess has been run and
  no job submitted.
\<close>

theorem remote_outside_workdir:
  assumes "env_USER h = Some ''jnboehm91''"
    and "env_WORK h = Some work"
    and "\<exists>dep \<in> set deplist. \<not> is_relative_to (fs_resolve h (Path dep)) (Path work)"
  shows "redo_ifchange_slurm h w tr deplist partition' n_cpus mem time_str name
           = Some (Inl AssertionError, tr)"
proof -
  from assms(3)
  have "\<not> list_all (\<lambda>dep. is_relative_to (fs_resolve h dep) (Path work)) (map Path deplist)"
    by (auto simp: list_all_iff)
  then show ?thesis
    using assms(1,2) by (simp add: redo_ifchange_slurm_def remote_dispatch_def Let_def)
qed

theorem remote_outside_workdir_witness:
  "\<not> is_relative_to (Path ''/home/b.out'') (Path ''/work'') \<and>
   redo_ifchange_slurm \<lparr>env_USER = Some ''jnboehm91'', env_WORK = Some ''/work'', fs_resolve = (\<lambda>p. p)\<rparr>
     (\<lambda>tr c. proc_of 0 []) [] [''/home/b.out''] (Scalar (Some ''cpu-short'')) (Scalar None)
     (Scalar None) (Scalar None) (Scalar None) = Some (Inl AssertionError, [])"
proof -
  let ?h = "\<lparr>env_USER = Some ''jnboehm91'', env_WORK = Some ''/work'', fs_resolve = (\<lambda>p. p)\<rparr>"
  have out: "\<not> is_relative_to (Path ''/home/b.out'') (Path ''/work'')"
    by (simp add: Path_home_b Path_work is_relative_to_def)
  then have ex: "\<exists>dep \<in> set [''/home/b.out'']. \<not> is_relative_to (fs_resolve ?h (Path dep)) (Path ''/work'')"
    by simp
  have "redo_ifchange_slurm ?h (\<lambda>tr c. proc_of 0 []) [] [''/home/b.out''] (Scalar (Some ''cpu-short''))
          (Scalar None) (Scalar None) (Scalar None) (Scalar None) = Some (Inl AssertionError, [])"
    by (rule remote_outside_workdir [of ?h "''/work''", OF _ _ ex]) simp_all
  with out show ?thesis by simp
qed

section \<open>The completion poller\<close>

lemma poll_step_busy:
  assumes "returncode (w tr (Run argv None)) = 0" and "stdout (w tr (Run argv None)) \<noteq> []"
  shows "poll w argv tr = poll w argv (tr @ [Run argv None, Sleep])"
  using assms by (subst poll.simps) (simp add: check_output_def Let_def)

lemma poll_step_idle:
  assumes "returncode (w tr (Run argv None)) = 0" and "stdout (w tr (Run argv None)) = []"
  shows "poll w argv tr = Some (Inr (), tr @ [Run argv None])"
  using assms by (subst poll.simps) (simp add: check_output_def Let_def)

lemma poll_step_error:
  assumes "returncode (w tr (Run argv None)) \<noteq> 0"
  shows "poll w argv tr =
           Some (Inl (CalledProcessError (returncode (w tr (Run argv None)))), tr @ [Run argv None])"
  using assms by (subst poll.simps) (simp add: check_output_def Let_def)

lemma polls_Suc: "polls argv (Suc n) = [Run argv None, Sleep] @ polls argv n"
  by (simp add: polls_def)

lemma count_queries:
  "length (filter (\<lambda>c. c = Run argv None) (polls argv N @ [Run argv None])) = N + 1"
  by (induction N) (simp_all add: polls_def)

lemma poll_rounds:
  assumes "\<forall>k<N. returncode (w (tr @ polls argv k) (Run argv None)) = 0
                 \<and> stdout (w (tr @ polls argv k) (Run argv None)) \<noteq> []"
    and "returncode (w (tr @ polls argv N) (Run argv None)) = 0
           \<and> stdout (w (tr @ polls argv N) (Run argv None)) = []"
  shows "poll w argv tr = Some (Inr (), tr @ polls argv N @ [Run argv None])"
  using assms
proof (induction N arbitrary: tr)
  case 0
  then show ?case by (simp add: poll_step_idle polls_def)
next
  case (Suc N)
  let ?tr = "tr @ [Run argv None, Sleep]"
  from Suc.prems(1) [rule_format, of 0]
  have first: "returncode (w tr (Run argv None)) = 0" "stdout (w tr (Run argv None)) \<noteq> []"
    by (simp_all add: polls_def)
  have busy: "\<forall>k<N. returncode (w (?tr @ polls argv k) (Run argv None)) = 0
                    \<and> stdout (w (?tr @ polls argv k) (Run argv None)) \<noteq> []"
  proof (intro allI impI)
    fix k assume "k < N"
    then have "Suc k < Suc N" by simp
    from Suc.prems(1) [rule_format, OF this]
    show "returncode (w (?tr @ polls argv k) (Run argv None)) = 0
            \<and> stdout (w (?tr @ polls argv k) (Run argv None)) \<noteq> []"
      by (simp add: polls_Suc)
  qed
  have idle: "returncode (w (?tr @ polls argv N) (Run argv None)) = 0
                \<and> stdout (w (?tr @ polls argv N) (Run argv None)) = []"
    using Suc.prems(2) by (simp add: polls_Suc)
  have "poll w argv tr = poll w argv ?tr"
    using first by (rule poll_step_busy)
  also have "\<dots> = Some (Inr (), ?tr @ polls argv N @ [Run argv None])"
    using busy idle by (rule Suc.IH)
  finally show ?case by (simp add: polls_Suc)
qed

text \<open>
  C7: the polling loop returns at the first status query with an empty answer. If the
  scheduler answers the first \<open>N\<close> queries with a non-empty text and the next one with
  the empty text (each with exit code 0), the loop returns normally after exactly
  \<open>N + 1\<close> queries, with a sleep after each of the first \<open>N\<close>.
\<close>

theorem poll_queries:
  assumes "\<forall>k<N. returncode (w (tr @ polls argv k) (Run argv None)) = 0
                 \<and> stdout (w (tr @ polls argv k) (Run argv None)) \<noteq> []"
    and "returncode (w (tr @ polls argv N) (Run argv None)) = 0
           \<and> stdout (w (tr @ polls argv N) (Run argv None)) = []"
  shows "poll w argv tr = Some (Inr (), tr @ polls argv N @ [Run argv None])
       \<and> length (filter (\<lambda>c. c = Run argv None) (polls argv N @ [Run argv None])) = N + 1"
  using poll_rounds [of N w tr argv] assms count_queries [of argv N] by simp

theorem poll_queries_witness:
  "poll (\<lambda>tr c. proc_of 0 (if length tr < 4 then ''17 redo00 R'' else []))
        (squeue_argv ''jnboehm91'' ''17'' ''redo00'') []
     = Some (Inr (), [Run (squeue_argv ''jnboehm91'' ''17'' ''redo00'') None, Sleep,
                      Run (squeue_argv ''jnboehm91'' ''17'' ''redo00'') None, Sleep,
                      Run (squeue_argv ''jnboehm91'' ''17'' ''redo00'') None])
   \<and> length (filter (\<lambda>c. c = Run (squeue_argv ''jnboehm91'' ''17'' ''redo00'') None)
        (polls (squeue_argv ''jnboehm91'' ''17'' ''redo00'') 2
           @ [Run (squeue_argv ''jnboehm91'' ''17'' ''redo00'') None])) = 3"
proof -
  let ?w = "\<lambda>(tr :: call list) (c :: call). proc_of 0 (if length tr < 4 then ''17 redo00 R'' else [])"
  let ?q = "squeue_argv ''jnboehm91'' ''17'' ''redo00''"
  have busy: "\<forall>k<2. returncode (?w ([] @ polls ?q k) (Run ?q None)) = 0
                    \<and> stdout (?w ([] @ polls ?q k) (Run ?q None)) \<noteq> []"
    by (simp add: proc_of_def polls_def less_Suc_eq numeral_2_eq_2)
  have idle: "returncode (?w ([] @ polls ?q 2) (Run ?q None)) = 0
                \<and> stdout (?w ([] @ polls ?q 2) (Run ?q None)) = []"
    by (simp add: proc_of_def polls_def numeral_2_eq_2)
  from poll_queries [of 2 ?w "[]" ?q, OF busy idle]
  show ?thesis by (simp add: polls_def numeral_2_eq_2)
qed

section \<open>The submission loop\<close>

lemma submit_jobs_append:
  "submit_jobs w tr (xs @ ys) ids =
     (case submit_jobs w tr xs ids of
        (Inl e, tr') \<Rightarrow> (Inl e, tr')
      | (Inr ids', tr') \<Rightarrow> submit_jobs w tr' ys ids')"
  by (induction xs arbitrary: tr ids)
     (simp_all add: subprocess_run_def Let_def split: option.splits)

lemma submit_jobs_success:
  "submit_jobs w tr jobs ids = (Inr ids', tr') \<Longrightarrow>
     tr' = tr @ concat (map submit_calls jobs) \<and> length ids' = length ids + length jobs"
proof (induction jobs arbitrary: tr ids)
  case Nil
  then show ?case by simp
next
  case (Cons j js)
  let ?p = "w (tr @ [Mkdir (str_path (parent (job_dep j)))]) (Run (sbatch_argv j) (Some (job_script j)))"
  from Cons.prems have rc: "returncode ?p = 0"
    by (simp add: subprocess_run_def Let_def split: if_splits)
  from Cons.prems rc obtain i where i: "re_match_job (stdout ?p) = Some i"
    by (cases "re_match_job (stdout ?p)") (simp_all add: subprocess_run_def Let_def)
  from Cons.prems rc i have "submit_jobs w (tr @ submit_calls j) js (ids @ [i]) = (Inr ids', tr')"
    by (simp add: subprocess_run_def Let_def submit_calls_def)
  from Cons.IH [OF this] show ?case by simp
qed

lemma submit_jobs_trace:
  "\<exists>k\<le>length jobs. snd (submit_jobs w tr jobs ids) = tr @ concat (map submit_calls (take k jobs))"
proof (induction jobs arbitrary: tr ids)
  case Nil
  then show ?case by simp
next
  case (Cons j js)
  let ?tr1 = "tr @ [Mkdir (str_path (parent (job_dep j)))]"
  let ?p = "w ?tr1 (Run (sbatch_argv j) (Some (job_script j)))"
  let ?tr2 = "tr @ submit_calls j"
  show ?case
  proof (cases "returncode ?p = 0 \<and> re_match_job (stdout ?p) \<noteq> None")
    case True
    then obtain i where i: "re_match_job (stdout ?p) = Some i" by auto
    from Cons.IH [of ?tr2 "ids @ [i]"] obtain k where
      k: "k \<le> length js" "snd (submit_jobs w ?tr2 js (ids @ [i])) = ?tr2 @ concat (map submit_calls (take k js))"
      by blast
    have "snd (submit_jobs w tr (j # js) ids) = tr @ concat (map submit_calls (take (Suc k) (j # js)))"
      using True i k(2) by (simp add: subprocess_run_def Let_def submit_calls_def)
    with k(1) show ?thesis
      by (intro exI [of _ "Suc k"]) simp
  next
    case False
    then have "snd (submit_jobs w tr (j # js) ids) = tr @ concat (map submit_calls (take (Suc 0) (j # js)))"
      by (auto simp: subprocess_run_def Let_def submit_calls_def split: option.splits)
    then show ?thesis
      by (intro exI [of _ "Suc 0"]) simp
  qed
qed

lemma submit_jobs_fail_step:
  assumes "p = w (tr @ [Mkdir (str_path (parent (job_dep j)))]) (Run (sbatch_argv j) (Some (job_script j)))"
  shows "returncode p \<noteq> 0 \<Longrightarrow> submit_jobs w tr (j # js) ids = (Inl (sbatch_failed p), tr @ submit_calls j)"
    and "returncode p = 0 \<Longrightarrow> re_match_job (stdout p) = None \<Longrightarrow>
           submit_jobs w tr (j # js) ids = (Inl TypeError, tr @ submit_calls j)"
  using assms by (simp_all add: subprocess_run_def Let_def submit_calls_def)

lemma slurm_submit_failure:
  assumes jobs: "launch_jobs deplist partition' n_cpus mem time_str names = pre @ j # post"
    and pre: "submit_jobs w tr pre [] = (Inr ids, tr1)"
    and p: "p = w (tr1 @ [Mkdir (str_path (parent (job_dep j)))]) (Run (sbatch_argv j) (Some (job_script j)))"
  shows "returncode p \<noteq> 0 \<Longrightarrow>
           slurm_launch_and_wait w tr deplist user partition' n_cpus mem time_str names
             = Some (Inl (sbatch_failed p), tr @ concat (map submit_calls pre) @ submit_calls j)"
    and "returncode p = 0 \<Longrightarrow> re_match_job (stdout p) = None \<Longrightarrow>
           slurm_launch_and_wait w tr deplist user partition' n_cpus mem time_str names
             = Some (Inl TypeError, tr @ concat (map submit_calls pre) @ submit_calls j)"
proof -
  from submit_jobs_success [OF pre] have tr1: "tr1 = tr @ concat (map submit_calls pre)"
    by simp
  have unroll: "submit_jobs w tr (pre @ j # post) [] = submit_jobs w tr1 (j # post) ids"
    by (simp add: submit_jobs_append pre)
  show "returncode p \<noteq> 0 \<Longrightarrow>
           slurm_launch_and_wait w tr deplist user partition' n_cpus mem time_str names
             = Some (Inl (sbatch_failed p), tr @ concat (map submit_calls pre) @ submit_calls j)"
    using submit_jobs_fail_step(1) [of p w tr1 j post ids] p
    by (simp add: slurm_launch_and_wait_def jobs unroll tr1 Let_def)
  show "returncode p = 0 \<Longrightarrow> re_match_job (stdout p) = None \<Longrightarrow>
           slurm_launch_and_wait w tr deplist user partition' n_cpus mem time_str names
             = Some (Inl TypeError, tr @ concat (map submit_calls pre) @ submit_calls j)"
    using submit_jobs_fail_step(2) [of p w tr1 j post ids] p
    by (simp add: slurm_launch_and_wait_def jobs unroll tr1 Let_def)
qed

section \<open>The argument list of a submission\<close>

lemma digit_char_is_digit: "d < 10 \<Longrightarrow> is_digit (digit_char d)"
proof -
  assume "d < 10"
  then have "d < length ''0123456789''" by simp
  then have "''0123456789'' ! d \<in> set ''0123456789''" by (rule nth_mem)
  then show ?thesis by (simp only: is_digit_def digit_char_def)
qed

lemma str_nat_digits: "str_nat n \<noteq> [] \<and> list_all is_digit (str_nat n)"
proof (induction n rule: str_nat.induct)
  case (1 n)
  show ?case
  proof (cases "n < 10")
    case True
    then show ?thesis
      by (subst (1 2) str_nat.simps) (simp add: digit_char_is_digit)
  next
    case False
    with "1.IH" have "str_nat (n div 10) \<noteq> [] \<and> list_all is_digit (str_nat (n div 10))" by simp
    moreover have "is_digit (digit_char (n mod 10))" by (rule digit_char_is_digit) simp
    ultimately show ?thesis using False
      by (subst (1 2) str_nat.simps) simp
  qed
qed

lemma str_nat_hd: "\<exists>c cs. str_nat n = c # cs \<and> is_digit c"
  using str_nat_digits [of n] by (cases "str_nat n") simp_all

lemma not_digit_minus: "\<not> is_digit CHR ''-''"
  by (simp add: is_digit_def)

lemma str_int_not_flag: "str_int i \<noteq> CHR ''-'' # CHR ''-'' # s"
proof (cases "i < 0")
  case True
  obtain c cs where "str_nat (nat (- i)) = c # cs" "is_digit c"
    using str_nat_hd by blast
  with True show ?thesis
    using not_digit_minus by (auto simp: str_int_def)
next
  case False
  obtain c cs where "str_nat (nat i) = c # cs" "is_digit c"
    using str_nat_hd by blast
  with False show ?thesis
    using not_digit_minus by (auto simp: str_int_def)
qed

lemma sbatch_args_parts:
  "sbatch_args j =
     (case job_part j of None \<Rightarrow> [] | Some part \<Rightarrow> [''--partition'', part])
     @ (case job_n_cpu j of None \<Rightarrow> [] | Some n_cpu \<Rightarrow> [''--cpus-per-task'', str_int n_cpu])
     @ (case job_m j of None \<Rightarrow> [] | Some m \<Rightarrow> [''--mem'', m])
     @ (case job_t j of None \<Rightarrow> [] | Some t \<Rightarrow> [''--time'', t])
     @ (if is_gpu_partition (job_part j) then [''--gres=gpu:1''] else [])"
  by (simp add: sbatch_args_def Let_def split: option.splits)

lemma str_int_flag: "str_int i \<notin> set flag_texts"
  using str_int_not_flag [of i] by (auto simp: flag_texts_def)

lemma flags_member:
  assumes "\<forall>v. job_part j = Some v \<or> job_m j = Some v \<or> job_t j = Some v \<longrightarrow> v \<notin> set flag_texts"
  shows "(''--gres=gpu:1'' \<in> set (sbatch_args j)) = is_gpu_partition (job_part j)"
    and "(''--partition'' \<in> set (sbatch_args j)) = (job_part j \<noteq> None)"
    and "(''--cpus-per-task'' \<in> set (sbatch_args j)) = (job_n_cpu j \<noteq> None)"
    and "(''--mem'' \<in> set (sbatch_args j)) = (job_m j \<noteq> None)"
    and "(''--time'' \<in> set (sbatch_args j)) = (job_t j \<noteq> None)"
proof -
  have p: "\<And>v. job_part j = Some v \<Longrightarrow> v \<notin> set flag_texts"
    and m: "\<And>v. job_m j = Some v \<Longrightarrow> v \<notin> set flag_texts"
    and t: "\<And>v. job_t j = Some v \<Longrightarrow> v \<notin> set flag_texts"
    using assms by blast+
  define P where "P = (case job_part j of None \<Rightarrow> [] | Some part \<Rightarrow> [''--partition'', part])"
  define C where "C = (case job_n_cpu j of None \<Rightarrow> [] | Some n_cpu \<Rightarrow> [''--cpus-per-task'', str_int n_cpu])"
  define M where "M = (case job_m j of None \<Rightarrow> [] | Some m \<Rightarrow> [''--mem'', m])"
  define T where "T = (case job_t j of None \<Rightarrow> [] | Some t \<Rightarrow> [''--time'', t])"
  define G where "G = (if is_gpu_partition (job_part j) then [''--gres=gpu:1''] else [])"
  have "sbatch_args j = P @ C @ M @ T @ G"
    unfolding P_def C_def M_def T_def G_def by (rule sbatch_args_parts)
  then have args: "set (sbatch_args j) = set P \<union> set C \<union> set M \<union> set T \<union> set G"
    by (simp add: Un_assoc)
  have sP: "set P \<inter> set flag_texts = (if job_part j = None then {} else {''--partition''})"
    using p by (cases "job_part j") (auto simp: P_def flag_texts_def)
  have sC: "set C \<inter> set flag_texts = (if job_n_cpu j = None then {} else {''--cpus-per-task''})"
    using str_int_flag by (cases "job_n_cpu j") (auto simp: C_def flag_texts_def)
  have sM: "set M \<inter> set flag_texts = (if job_m j = None then {} else {''--mem''})"
    using m by (cases "job_m j") (auto simp: M_def flag_texts_def)
  have sT: "set T \<inter> set flag_texts = (if job_t j = None then {} else {''--time''})"
    using t by (cases "job_t j") (auto simp: T_def flag_texts_def)
  have sG: "set G \<inter> set flag_texts = (if is_gpu_partition (job_part j) then {''--gres=gpu:1''} else {})"
    by (simp add: G_def flag_texts_def)
  have all: "set (sbatch_args j) \<inter> set flag_texts =
      (if job_part j = None then {} else {''--partition''})
      \<union> (if job_n_cpu j = None then {} else {''--cpus-per-task''})
      \<union> (if job_m j = None then {} else {''--mem''})
      \<union> (if job_t j = None then {} else {''--time''})
      \<union> (if is_gpu_partition (job_part j) then {''--gres=gpu:1''} else {})"
    unfolding args Int_Un_distrib2 sP sC sM sT sG ..
  have mem: "\<And>f. f \<in> set flag_texts \<Longrightarrow> (f \<in> set (sbatch_args j)) = (f \<in> set (sbatch_args j) \<inter> set flag_texts)"
    by simp
  have "''--gres=gpu:1'' \<in> set flag_texts"
    by (simp add: flag_texts_def)
  from mem [OF this] show "(''--gres=gpu:1'' \<in> set (sbatch_args j)) = is_gpu_partition (job_part j)"
    unfolding all by simp
  have "''--partition'' \<in> set flag_texts"
    by (simp add: flag_texts_def)
  from mem [OF this] show "(''--partition'' \<in> set (sbatch_args j)) = (job_part j \<noteq> None)"
    unfolding all by simp
  have "''--cpus-per-task'' \<in> set flag_texts"
    by (simp add: flag_texts_def)
  from mem [OF this] show "(''--cpus-per-task'' \<in> set (sbatch_args j)) = (job_n_cpu j \<noteq> None)"
    unfolding all by simp
  have "''--mem'' \<in> set flag_texts"
    by (simp add: flag_texts_def)
  from mem [OF this] show "(''--mem'' \<in> set (sbatch_args j)) = (job_m j \<noteq> None)"
    unfolding all by simp
  have "''--time'' \<in> set flag_texts"
    by (simp add: flag_texts_def)
  from mem [OF this] show "(''--time'' \<in> set (sbatch_args j)) = (job_t j \<noteq> None)"
    unfolding all by simp
qed


text \<open>
  C6: every target submitted leaves one \<^verbatim>\<open>sbatch\<close> call in the trace, whose argument
  vector is \<^verbatim>\<open>sbatch\<close>, the list \<open>sbatch_args\<close> of the target and the job name. The list
  \<open>sbatch_args\<close> is the concatenation of five optional pieces, in this order: the
  partition flag with its value when the partition is not \<^verbatim>\<open>None\<close>, the CPU-count flag
  with the count in decimal when the count is not \<^verbatim>\<open>None\<close>, the memory flag and the
  time-limit flag likewise, and \<^verbatim>\<open>--gres=gpu:1\<close> when the partition is GPU-class; each
  piece is absent otherwise. Read as membership in the list: when no value supplied
  for the partition, the memory or the time limit is itself the text of one of the
  five flags, each flag is an element of the list exactly when its field is set, and
  \<^verbatim>\<open>--gres=gpu:1\<close> exactly when the partition is GPU-class.
\<close>

theorem submitted_argument_lists:
  "(\<exists>k\<le>length jobs.
      snd (submit_jobs w tr jobs ids) =
        tr @ concat (map (\<lambda>j.
               [Mkdir (str_path (parent (job_dep j))),
                Run ([''sbatch''] @ sbatch_args j @ [''--job-name'', job_name j])
                    (Some (job_script j))])
             (take k jobs)))
   \<and> sbatch_args j =
       (case job_part j of None \<Rightarrow> [] | Some part \<Rightarrow> [''--partition'', part])
       @ (case job_n_cpu j of None \<Rightarrow> [] | Some n_cpu \<Rightarrow> [''--cpus-per-task'', str_int n_cpu])
       @ (case job_m j of None \<Rightarrow> [] | Some m \<Rightarrow> [''--mem'', m])
       @ (case job_t j of None \<Rightarrow> [] | Some t \<Rightarrow> [''--time'', t])
       @ (if is_gpu_partition (job_part j) then [''--gres=gpu:1''] else [])
   \<and> ((\<forall>v. job_part j = Some v \<or> job_m j = Some v \<or> job_t j = Some v \<longrightarrow> v \<notin> set flag_texts) \<longrightarrow>
        (''--gres=gpu:1'' \<in> set (sbatch_args j)) = is_gpu_partition (job_part j)
        \<and> (''--partition'' \<in> set (sbatch_args j)) = (job_part j \<noteq> None)
        \<and> (''--cpus-per-task'' \<in> set (sbatch_args j)) = (job_n_cpu j \<noteq> None)
        \<and> (''--mem'' \<in> set (sbatch_args j)) = (job_m j \<noteq> None)
        \<and> (''--time'' \<in> set (sbatch_args j)) = (job_t j \<noteq> None))"
proof (intro conjI impI)
  have calls: "submit_calls = (\<lambda>j.
               [Mkdir (str_path (parent (job_dep j))),
                Run ([''sbatch''] @ sbatch_args j @ [''--job-name'', job_name j])
                    (Some (job_script j))])"
    by (rule ext) (simp only: submit_calls_def sbatch_argv_def)
  from submit_jobs_trace [of jobs w tr ids]
  show "\<exists>k\<le>length jobs.
      snd (submit_jobs w tr jobs ids) =
        tr @ concat (map (\<lambda>j.
               [Mkdir (str_path (parent (job_dep j))),
                Run ([''sbatch''] @ sbatch_args j @ [''--job-name'', job_name j])
                    (Some (job_script j))])
             (take k jobs))"
    unfolding calls .
next
  show "sbatch_args j =
       (case job_part j of None \<Rightarrow> [] | Some part \<Rightarrow> [''--partition'', part])
       @ (case job_n_cpu j of None \<Rightarrow> [] | Some n_cpu \<Rightarrow> [''--cpus-per-task'', str_int n_cpu])
       @ (case job_m j of None \<Rightarrow> [] | Some m \<Rightarrow> [''--mem'', m])
       @ (case job_t j of None \<Rightarrow> [] | Some t \<Rightarrow> [''--time'', t])
       @ (if is_gpu_partition (job_part j) then [''--gres=gpu:1''] else [])"
    by (rule sbatch_args_parts)
next
  assume a: "\<forall>v. job_part j = Some v \<or> job_m j = Some v \<or> job_t j = Some v \<longrightarrow> v \<notin> set flag_texts"
  show "(''--gres=gpu:1'' \<in> set (sbatch_args j)) = is_gpu_partition (job_part j)"
    by (rule flags_member(1) [OF a])
  show "(''--partition'' \<in> set (sbatch_args j)) = (job_part j \<noteq> None)"
    by (rule flags_member(2) [OF a])
  show "(''--cpus-per-task'' \<in> set (sbatch_args j)) = (job_n_cpu j \<noteq> None)"
    by (rule flags_member(3) [OF a])
  show "(''--mem'' \<in> set (sbatch_args j)) = (job_m j \<noteq> None)"
    by (rule flags_member(4) [OF a])
  show "(''--time'' \<in> set (sbatch_args j)) = (job_t j \<noteq> None)"
    by (rule flags_member(5) [OF a])
qed

lemma str_int_4: "str_int 4 = ''4''"
  by (simp add: str_int_def str_nat.simps digit_char_def)

theorem submitted_argument_lists_witness:
  "sbatch_args job_gpu =
     [''--partition'', ''gpu-v100'', ''--cpus-per-task'', ''4'', ''--time'', ''1-00:00'', ''--gres=gpu:1'']
   \<and> is_gpu_partition (job_part job_gpu)
   \<and> ''--gres=gpu:1'' \<in> set (sbatch_args job_gpu)
   \<and> ''--partition'' \<in> set (sbatch_args job_gpu)
   \<and> ''--cpus-per-task'' \<in> set (sbatch_args job_gpu)
   \<and> ''--mem'' \<notin> set (sbatch_args job_gpu)
   \<and> ''--time'' \<in> set (sbatch_args job_gpu)"
proof -
  note inst = submitted_argument_lists [of "[job_gpu]" "\<lambda>tr c. proc_of 0 []" "[]" "[]" job_gpu]
  have gpu: "is_gpu_partition (job_part job_gpu)"
    by (simp add: job_gpu_def is_gpu_partition_def)
  have free: "\<forall>v. job_part job_gpu = Some v \<or> job_m job_gpu = Some v \<or> job_t job_gpu = Some v
                \<longrightarrow> v \<notin> set flag_texts"
    by (auto simp: job_gpu_def flag_texts_def)
  from inst have "sbatch_args job_gpu =
       (case job_part job_gpu of None \<Rightarrow> [] | Some part \<Rightarrow> [''--partition'', part])
       @ (case job_n_cpu job_gpu of None \<Rightarrow> [] | Some n_cpu \<Rightarrow> [''--cpus-per-task'', str_int n_cpu])
       @ (case job_m job_gpu of None \<Rightarrow> [] | Some m \<Rightarrow> [''--mem'', m])
       @ (case job_t job_gpu of None \<Rightarrow> [] | Some t \<Rightarrow> [''--time'', t])
       @ (if is_gpu_partition (job_part job_gpu) then [''--gres=gpu:1''] else [])"
    by blast
  then have args: "sbatch_args job_gpu =
     [''--partition'', ''gpu-v100'', ''--cpus-per-task'', ''4'', ''--time'', ''1-00:00'', ''--gres=gpu:1'']"
    using gpu by (simp add: job_gpu_def str_int_4)
  from inst free
  have "(''--gres=gpu:1'' \<in> set (sbatch_args job_gpu)) = is_gpu_partition (job_part job_gpu)
        \<and> (''--partition'' \<in> set (sbatch_args job_gpu)) = (job_part job_gpu \<noteq> None)
        \<and> (''--cpus-per-task'' \<in> set (sbatch_args job_gpu)) = (job_n_cpu job_gpu \<noteq> None)
        \<and> (''--mem'' \<in> set (sbatch_args job_gpu)) = (job_m job_gpu \<noteq> None)
        \<and> (''--time'' \<in> set (sbatch_args job_gpu)) = (job_t job_gpu \<noteq> None)"
    by blast
  moreover have "job_part job_gpu \<noteq> None" "job_n_cpu job_gpu \<noteq> None" "job_m job_gpu = None"
    "job_t job_gpu \<noteq> None"
    by (simp_all add: job_gpu_def)
  ultimately show ?thesis
    using gpu args by blast
qed

section \<open>Failure of a submission\<close>

lemma Path_a: "Path ''/work/a.out'' = [''/'', ''work'', ''a.out'']"
  by (simp add: Path_def path_root_def split_def)

lemma Path_b: "Path ''/work/b.out'' = [''/'', ''work'', ''b.out'']"
  by (simp add: Path_def path_root_def split_def)

lemma match_17: "re_match_job ''Submitted batch job 17\<newline>'' = Some ''17''"
  by (simp add: re_match_job_def is_digit_def)

lemma default_name_0: "default_name 0 = ''redo00''"
  by (simp add: default_name_def str_nat.simps digit_char_def)

lemma default_name_1: "default_name (Suc 0) = ''redo01''"
  by (simp add: default_name_def str_nat.simps digit_char_def)

text \<open>
  C9: in the remote mode, when the submissions before target \<open>j\<close> have succeeded and
  the \<^verbatim>\<open>sbatch\<close> call for \<open>j\<close> exits with a code other than 0, the dispatch call raises
  \<^verbatim>\<open>RuntimeError\<close> carrying the exit code and the error output; when it exits with 0 but
  its output does not start with \<^verbatim>\<open>Submitted batch job\<close> and a digit, the call raises the
  \<^verbatim>\<open>TypeError\<close> of subscripting the failed match. In both cases the trace ends with the
  failing \<^verbatim>\<open>sbatch\<close> call: the earlier submissions stand, nothing cancels them, no
  later target is submitted, and neither the poller nor the final \<^verbatim>\<open>redo-ifchange\<close>
  runs.
\<close>

theorem submission_failure_aborts:
  assumes user: "env_USER h = Some ''jnboehm91''"
    and work: "env_WORK h = Some work"
    and inside: "list_all (\<lambda>dep. is_relative_to (fs_resolve h dep) (Path work)) (map Path deplist)"
    and ood: "redo_ood_list w tr (map Path deplist) = (is_ood, tr0)"
    and jobs: "launch_jobs (filter_by (map Path deplist) is_ood) (redo_filter_list partition' is_ood)
                 (redo_filter_list n_cpus is_ood) mem (redo_filter_list time_str is_ood)
                 (redo_filter_list name is_ood) = pre @ j # post"
    and pre: "submit_jobs w tr0 pre [] = (Inr ids, tr1)"
    and p: "p = w (tr1 @ [Mkdir (str_path (parent (job_dep j)))]) (Run (sbatch_argv j) (Some (job_script j)))"
  shows "(returncode p \<noteq> 0 \<longrightarrow>
            redo_ifchange_slurm h w tr deplist partition' n_cpus mem time_str name
              = Some (Inl (sbatch_failed p), tr0 @ concat (map submit_calls pre) @ submit_calls j))
       \<and> (returncode p = 0 \<and> re_match_job (stdout p) = None \<longrightarrow>
            redo_ifchange_slurm h w tr deplist partition' n_cpus mem time_str name
              = Some (Inl TypeError, tr0 @ concat (map submit_calls pre) @ submit_calls j))"
proof (intro conjI impI)
  assume rc: "returncode p \<noteq> 0"
  from slurm_submit_failure(1) [OF jobs pre p rc, of "''jnboehm91''"]
  show "redo_ifchange_slurm h w tr deplist partition' n_cpus mem time_str name
          = Some (Inl (sbatch_failed p), tr0 @ concat (map submit_calls pre) @ submit_calls j)"
    using user work inside ood
    by (simp add: redo_ifchange_slurm_def remote_dispatch_def Let_def)
next
  assume "returncode p = 0 \<and> re_match_job (stdout p) = None"
  then have rc: "returncode p = 0" and nomatch: "re_match_job (stdout p) = None"
    by simp_all
  from slurm_submit_failure(2) [OF jobs pre p rc nomatch, of "''jnboehm91''"]
  show "redo_ifchange_slurm h w tr deplist partition' n_cpus mem time_str name
          = Some (Inl TypeError, tr0 @ concat (map submit_calls pre) @ submit_calls j)"
    using user work inside ood
    by (simp add: redo_ifchange_slurm_def remote_dispatch_def Let_def)
qed

lemma inside_work:
  "list_all (\<lambda>dep. is_relative_to (fs_resolve host_remote dep) (Path ''/work''))
     (map Path [''/work/a.out'', ''/work/b.out''])"
  by (simp add: Path_a Path_b Path_work is_relative_to_def host_remote_def)

lemma ood_all_stale:
  "redo_ood_list (world_submit p) [] (map Path [''/work/a.out'', ''/work/b.out''])
     = ([True, True], [Run [''redo-ood'', ''/work/a.out'', ''/work/b.out''] None])"
  by (simp add: redo_ood_list_def subprocess_run_def world_submit_def proc_of_def Path_a Path_b
        str_path_a str_path_b)

lemma jobs_a_b:
  "launch_jobs (filter_by (map Path [''/work/a.out'', ''/work/b.out'']) [True, True])
     (redo_filter_list (Scalar (Some ''cpu-short'')) [True, True])
     (redo_filter_list (Scalar None) [True, True]) (Scalar None)
     (redo_filter_list (Scalar None) [True, True])
     (redo_filter_list (Scalar None) [True, True]) = [job_a] @ job_b # []"
  by (simp add: launch_jobs_def filter_by_def redo_filter_list_def broadcast_def job_names_def
        default_name_0 default_name_1 Path_a Path_b job_a_def job_b_def)

lemma submit_a:
  "submit_jobs (world_submit p) [Run [''redo-ood'', ''/work/a.out'', ''/work/b.out''] None] [job_a] []
     = (Inr [''17''], [Run [''redo-ood'', ''/work/a.out'', ''/work/b.out''] None] @ submit_calls job_a)"
  by (simp add: subprocess_run_def world_submit_def proc_of_def match_17 submit_calls_def)

theorem submission_failure_aborts_witness:
  "redo_ifchange_slurm host_remote (world_submit (proc_of 1 [])) [] [''/work/a.out'', ''/work/b.out'']
       (Scalar (Some ''cpu-short'')) (Scalar None) (Scalar None) (Scalar None) (Scalar None)
     = Some (Inl (sbatch_failed (proc_of 1 [])),
             [Run [''redo-ood'', ''/work/a.out'', ''/work/b.out''] None]
               @ submit_calls job_a @ submit_calls job_b)
   \<and> redo_ifchange_slurm host_remote (world_submit (proc_of 0 ''queue closed'')) []
       [''/work/a.out'', ''/work/b.out'']
       (Scalar (Some ''cpu-short'')) (Scalar None) (Scalar None) (Scalar None) (Scalar None)
     = Some (Inl TypeError,
             [Run [''redo-ood'', ''/work/a.out'', ''/work/b.out''] None]
               @ submit_calls job_a @ submit_calls job_b)"
proof -
  let ?tr0 = "[Run [''redo-ood'', ''/work/a.out'', ''/work/b.out''] None]"
  have user: "env_USER host_remote = Some ''jnboehm91''" and work: "env_WORK host_remote = Some ''/work''"
    by (simp_all add: host_remote_def)
  have p: "\<And>p. p = world_submit p ((?tr0 @ submit_calls job_a) @ [Mkdir (str_path (parent (job_dep job_b)))])
                    (Run (sbatch_argv job_b) (Some (job_script job_b)))"
    by (simp add: world_submit_def submit_calls_def)
  note inst = submission_failure_aborts [OF user work inside_work ood_all_stale jobs_a_b submit_a p]
  have fail: "returncode (proc_of 1 []) \<noteq> 0"
    by (simp add: proc_of_def)
  have nomatch: "returncode (proc_of 0 ''queue closed'') = 0 \<and> re_match_job (stdout (proc_of 0 ''queue closed'')) = None"
    by (simp add: proc_of_def re_match_job_def)
  from inst [of "proc_of 1 []"] fail inst [of "proc_of 0 ''queue closed''"] nomatch
  show ?thesis by simp
qed

section \<open>The local-only mode\<close>

lemma redo_each_trace:
  "snd (redo_each w tr deps) = tr @ map (\<lambda>dep. Run [''redo-ifchange'', dep] None) deps"
proof (induction deps arbitrary: tr)
  case Nil
  then show ?case by simp
next
  case (Cons dep deps)
  have "snd (redo_each w tr (dep # deps))
          = snd (redo_each w (tr @ [Run [''redo-ifchange'', dep] None]) deps)"
    by (simp add: redo_ifchange_def redo_def subprocess_call_def split_beta)
  then show ?case by (simp add: Cons.IH)
qed

lemma local_dispatch_trace:
  "local_dispatch w tr deplist partition' =
     (Inr (),
      tr @ map (\<lambda>dep. Run [''redo-ifchange'', dep] None)
             (map fst (filter (\<lambda>(dep, p). is_gpu_partition p)
                (zip deplist (broadcast (length deplist) partition'))))
         @ [Run (''redo-ifchange'' #
                  map fst (filter (\<lambda>(dep, p). \<not> is_gpu_partition p)
                    (zip deplist (broadcast (length deplist) partition')))) None])"
proof -
  let ?gpu = "map fst (filter (\<lambda>(dep, p). is_gpu_partition p)
                (zip deplist (broadcast (length deplist) partition')))"
  obtain rcs tr1 where e: "redo_each w tr ?gpu = (rcs, tr1)"
    by (cases "redo_each w tr ?gpu")
  with redo_each_trace [of w tr ?gpu]
  have tr1: "tr1 = tr @ map (\<lambda>dep. Run [''redo-ifchange'', dep] None) ?gpu"
    by simp
  show ?thesis
    by (simp add: local_dispatch_def Let_def e tr1 redo_ifchange_def redo_def subprocess_call_def)
qed

text \<open>
  C2, as the code has it: in the local-only mode (\<^verbatim>\<open>$USER\<close> is \<^verbatim>\<open>nboehm\<close>) the exit codes
  of the \<^verbatim>\<open>redo-ifchange\<close> invocations are discarded. Whatever the invocations return,
  the dispatcher runs one invocation per GPU-class target, in list order, then one
  invocation for all the other targets, and returns normally.
\<close>

theorem local_exit_codes_discarded:
  "env_USER h = Some ''nboehm'' \<Longrightarrow>
   redo_ifchange_slurm h w tr deplist partition' n_cpus mem time_str name =
     Some (Inr (),
       tr @ map (\<lambda>dep. Run [''redo-ifchange'', dep] None)
              (map fst (filter (\<lambda>(dep, p). is_gpu_partition p)
                 (zip deplist (broadcast (length deplist) partition'))))
          @ [Run (''redo-ifchange'' #
                   map fst (filter (\<lambda>(dep, p). \<not> is_gpu_partition p)
                     (zip deplist (broadcast (length deplist) partition')))) None])"
  by (simp add: redo_ifchange_slurm_def local_dispatch_trace)

lemma gpu_v100: "is_gpu_partition (Some ''gpu-v100'')"
  by (simp add: is_gpu_partition_def)

lemma not_gpu_cpu_short: "\<not> is_gpu_partition (Some ''cpu-short'')"
  by (simp add: is_gpu_partition_def)

theorem local_exit_codes_discarded_witness:
  "redo_ifchange_slurm host_local (\<lambda>tr c. proc_of 0 []) [] [''a.out'', ''b.out'', ''c.out'']
     (PyList [Some ''cpu-short'', Some ''gpu-v100'', Some ''cpu-short''])
     (Scalar None) (Scalar None) (Scalar None) (Scalar None)
   = Some (Inr (), [Run [''redo-ifchange'', ''b.out''] None,
                    Run [''redo-ifchange'', ''a.out'', ''c.out''] None])"
proof -
  have user: "env_USER host_local = Some ''nboehm''"
    by (simp add: host_local_def)
  from local_exit_codes_discarded [OF user, of "\<lambda>tr c. proc_of 0 []" "[]" "[''a.out'', ''b.out'', ''c.out'']"
         "PyList [Some ''cpu-short'', Some ''gpu-v100'', Some ''cpu-short'']"
         "Scalar None" "Scalar None" "Scalar None" "Scalar None"]
  show ?thesis
    by (simp add: broadcast_def gpu_v100 not_gpu_cpu_short)
qed

text \<open>
  C2 as stated fails: with every local invocation exiting with code 1, the dispatch
  call still runs all of them and returns normally.
\<close>

theorem local_failure_not_propagated:
  "returncode (proc_of 1 []) \<noteq> 0 \<and>
   redo_ifchange_slurm host_local (\<lambda>tr c. proc_of 1 []) [] [''a.out'', ''b.out'']
     (Scalar (Some ''gpu-v100'')) (Scalar None) (Scalar None) (Scalar None) (Scalar None)
   = Some (Inr (), [Run [''redo-ifchange'', ''a.out''] None,
                    Run [''redo-ifchange'', ''b.out''] None,
                    Run [''redo-ifchange''] None])"
  by (simp add: redo_ifchange_slurm_def host_local_def local_dispatch_trace broadcast_def
        gpu_v100 proc_of_def)


section \<open>Lists of different lengths\<close>

lemma zip_take_left: "zip (take (length ys) xs) ys = zip xs ys"
proof (induction xs arbitrary: ys)
  case Nil
  then show ?case by simp
next
  case (Cons x xs)
  then show ?case by (cases ys) simp_all
qed

lemma length_job_names:
  "length (job_names n names) = (case names of Scalar s \<Rightarrow> n | PyList xs \<Rightarrow> length xs)"
  by (simp add: job_names_def split: arg.splits option.splits)

lemma length_broadcast:
  "length (broadcast n a) = (case a of Scalar s \<Rightarrow> n | PyList xs \<Rightarrow> length xs)"
  by (simp add: broadcast_def split: arg.splits)

text \<open>
  C1, as the code has it: no length is checked. The submission loop iterates over the
  \<^verbatim>\<open>zip\<close> of the six lists, so the number of jobs it prepares is the smallest of the
  number of targets and the lengths of the list-valued fields; a scalar field is
  repeated once per target and never shortens the loop. The local-only mode pairs
  targets and partitions in the same way: it returns normally, and the targets beyond
  the end of the partition list are left out.
\<close>

theorem lists_paired_up_to_shortest:
  "length (launch_jobs deplist partition' n_cpus mem time_str names) =
     min (case names of Scalar s \<Rightarrow> length deplist | PyList xs \<Rightarrow> length xs)
    (min (length deplist)
    (min (case partition' of Scalar s \<Rightarrow> length deplist | PyList xs \<Rightarrow> length xs)
    (min (case n_cpus of Scalar s \<Rightarrow> length deplist | PyList xs \<Rightarrow> length xs)
    (min (case mem of Scalar s \<Rightarrow> length deplist | PyList xs \<Rightarrow> length xs)
         (case time_str of Scalar s \<Rightarrow> length deplist | PyList xs \<Rightarrow> length xs)))))
   \<and> fst (local_dispatch w tr targets (PyList ps)) = Inr ()
   \<and> local_dispatch w tr targets (PyList ps) = local_dispatch w tr (take (length ps) targets) (PyList ps)"
proof (intro conjI)
  show "length (launch_jobs deplist partition' n_cpus mem time_str names) =
     min (case names of Scalar s \<Rightarrow> length deplist | PyList xs \<Rightarrow> length xs)
    (min (length deplist)
    (min (case partition' of Scalar s \<Rightarrow> length deplist | PyList xs \<Rightarrow> length xs)
    (min (case n_cpus of Scalar s \<Rightarrow> length deplist | PyList xs \<Rightarrow> length xs)
    (min (case mem of Scalar s \<Rightarrow> length deplist | PyList xs \<Rightarrow> length xs)
         (case time_str of Scalar s \<Rightarrow> length deplist | PyList xs \<Rightarrow> length xs)))))"
    by (simp only: launch_jobs_def Let_def length_map length_zip length_job_names length_broadcast)
  show "fst (local_dispatch w tr targets (PyList ps)) = Inr ()"
    by (simp add: local_dispatch_trace)
  show "local_dispatch w tr targets (PyList ps) = local_dispatch w tr (take (length ps) targets) (PyList ps)"
    by (simp add: local_dispatch_trace broadcast_def zip_take_left)
qed

lemma jobs_short_partition:
  "launch_jobs (filter_by (map Path [''/work/a.out'', ''/work/b.out'']) [True, True])
     (redo_filter_list (PyList [Some ''cpu-short'']) [True, True])
     (redo_filter_list (Scalar None) [True, True]) (Scalar None)
     (redo_filter_list (Scalar None) [True, True])
     (redo_filter_list (Scalar None) [True, True]) = [job_a]"
  by (simp add: launch_jobs_def filter_by_def redo_filter_list_def broadcast_def job_names_def
        default_name_0 default_name_1 Path_a Path_b job_a_def)

lemma names_2: "job_names (Suc (Suc 0)) (redo_filter_list (Scalar None) bs) = [''redo00'', ''redo01'']"
  by (simp add: job_names_def redo_filter_list_def default_name_0 default_name_1)

lemma slurm_launch_run:
  assumes jobs: "launch_jobs deplist partition' n_cpus mem time_str names = jobs"
    and submit: "submit_jobs w tr jobs [] = (Inr job_ids, tr1)"
    and names: "join '','' (job_names (length deplist) names) = names_str"
    and ids: "join '','' job_ids = jobs_str"
    and poll: "poll w (squeue_argv user jobs_str names_str) tr1 = r"
  shows "slurm_launch_and_wait w tr deplist user partition' n_cpus mem time_str names = r"
  by (simp add: slurm_launch_and_wait_def Let_def jobs submit names ids poll)

lemma remote_dispatch_run:
  assumes work: "env_WORK h = Some work"
    and inside: "list_all (\<lambda>dep. is_relative_to (fs_resolve h dep) (Path work)) (map Path deplist)"
    and ood: "redo_ood_list w tr (map Path deplist) = (is_ood, tr0)"
    and launch: "slurm_launch_and_wait w tr0 (filter_by (map Path deplist) is_ood) ''jnboehm91''
                   (redo_filter_list partition' is_ood) (redo_filter_list n_cpus is_ood) mem
                   (redo_filter_list time_str is_ood) (redo_filter_list name is_ood)
                 = Some (Inr u, tr2)"
  shows "remote_dispatch h w tr deplist partition' n_cpus mem time_str name
           = Some (Inr (), tr2 @ [Run (''redo-ifchange'' # map str_path (map Path deplist)) None])"
  using inside
  by (simp add: remote_dispatch_def Let_def work ood launch redo_ifchange_def redo_def
        subprocess_call_def)

text \<open>
  C1 as stated fails: with two targets and a partition list of one entry the remote
  mode raises nothing. It submits the first target, polls, runs the final
  \<^verbatim>\<open>redo-ifchange\<close> on both targets and returns normally.
\<close>

theorem mismatched_lengths_accepted:
  "length [Some ''cpu-short''] \<noteq> length [''/work/a.out'', ''/work/b.out''] \<and>
   redo_ifchange_slurm host_remote (world_submit (proc_of 0 [])) [] [''/work/a.out'', ''/work/b.out'']
       (PyList [Some ''cpu-short'']) (Scalar None) (Scalar None) (Scalar None) (Scalar None)
     = Some (Inr (),
             [Run [''redo-ood'', ''/work/a.out'', ''/work/b.out''] None]
               @ submit_calls job_a
               @ [Run (squeue_argv ''jnboehm91'' ''17'' ''redo00,redo01'') None,
                  Run [''redo-ifchange'', ''/work/a.out'', ''/work/b.out''] None])"
proof -
  let ?w = "world_submit (proc_of 0 [])"
  let ?tr0 = "[Run [''redo-ood'', ''/work/a.out'', ''/work/b.out''] None]"
  let ?q = "squeue_argv ''jnboehm91'' ''17'' ''redo00,redo01''"
  have idle: "poll ?w ?q (?tr0 @ submit_calls job_a) = Some (Inr (), (?tr0 @ submit_calls job_a) @ [Run ?q None])"
    by (rule poll_step_idle) (simp_all add: world_submit_def proc_of_def submit_calls_def)
  have names: "join '','' (job_names (length (filter_by (map Path [''/work/a.out'', ''/work/b.out'']) [True, True]))
                 (redo_filter_list (Scalar None) [True, True])) = ''redo00,redo01''"
    by (simp add: filter_by_def names_2)
  have ids: "join '','' [''17''] = ''17''"
    by simp
  note launch = slurm_launch_run [OF jobs_short_partition submit_a names ids idle]
  have work: "env_WORK host_remote = Some ''/work''"
    by (simp add: host_remote_def)
  note run = remote_dispatch_run [OF work inside_work ood_all_stale launch]
  show ?thesis
    by (simp add: redo_ifchange_slurm_def host_remote_def run [unfolded host_remote_def]
          Path_a Path_b str_path_a str_path_b)
qed

section \<open>The memory field in the remote mode\<close>

lemma poll_trace:
  assumes "poll w argv tr = Some y"
  shows "\<exists>n. snd y = tr @ polls argv n @ [Run argv None]"
proof (rule poll.raw_induct
    [where P = "\<lambda>w argv tr y. \<exists>n. snd y = tr @ polls argv n @ [Run argv None]",
     OF _ assms])
  fix poll' :: "world \<Rightarrow> string list \<Rightarrow> call list \<Rightarrow> ((pyerror + unit) \<times> call list) option"
  fix w argv tr y
  assume IH: "\<And>w argv tr y. poll' w argv tr = Some y \<Longrightarrow>
      \<exists>n. snd y = tr @ polls argv n @ [Run argv None]"
  assume step: "(case check_output w tr argv of
        (Inl e, tr1) \<Rightarrow> Some (Inl e, tr1)
      | (Inr out, tr1) \<Rightarrow>
          if 0 < length out then poll' w argv (tr1 @ [Sleep]) else Some (Inr (), tr1)) = Some y"
  let ?p = "w tr (Run argv None)"
  show "\<exists>n. snd y = tr @ polls argv n @ [Run argv None]"
  proof (cases "returncode ?p = 0 \<and> stdout ?p \<noteq> []")
    case True
    with step have "poll' w argv (tr @ [Run argv None, Sleep]) = Some y"
      by (simp add: check_output_def Let_def)
    from IH [OF this] obtain n where
      "snd y = (tr @ [Run argv None, Sleep]) @ polls argv n @ [Run argv None]"
      by blast
    then have "snd y = tr @ polls argv (Suc n) @ [Run argv None]"
      by (simp add: polls_Suc)
    then show ?thesis by blast
  next
    case False
    with step have "snd y = tr @ polls argv 0 @ [Run argv None]"
      by (auto simp: check_output_def Let_def polls_def split: if_splits)
    then show ?thesis by blast
  qed
qed

lemma slurm_success_trace:
  assumes "slurm_launch_and_wait w tr deplist user partition' n_cpus mem time_str names = Some (Inr u, tr2)"
  shows "\<exists>rest. tr2 = tr @ concat (map submit_calls (launch_jobs deplist partition' n_cpus mem time_str names)) @ rest"
proof -
  let ?jobs = "launch_jobs deplist partition' n_cpus mem time_str names"
  obtain r tr1 where s: "submit_jobs w tr ?jobs [] = (r, tr1)"
    by (cases "submit_jobs w tr ?jobs []")
  from assms s obtain ids where r: "r = Inr ids"
    by (cases r) (simp_all add: slurm_launch_and_wait_def Let_def)
  from submit_jobs_success [OF s [unfolded r]] have tr1: "tr1 = tr @ concat (map submit_calls ?jobs)"
    by simp
  from assms s r obtain argv where "poll w argv tr1 = Some (Inr u, tr2)"
    by (simp add: slurm_launch_and_wait_def Let_def)
  from poll_trace [OF this] obtain n where
    "tr2 = tr1 @ polls argv n @ [Run argv None]"
    by auto
  with tr1 show ?thesis by simp
qed

lemma remote_success_trace:
  assumes ood: "redo_ood_list w tr (map Path deplist) = (is_ood, tr0)"
    and run: "remote_dispatch h w tr deplist partition' n_cpus mem time_str name = Some (Inr u, tr')"
  shows "\<exists>rest. tr' = tr0 @ concat (map submit_calls
            (launch_jobs (filter_by (map Path deplist) is_ood) (redo_filter_list partition' is_ood)
               (redo_filter_list n_cpus is_ood) mem (redo_filter_list time_str is_ood)
               (redo_filter_list name is_ood))) @ rest"
proof -
  let ?s = "slurm_launch_and_wait w tr0 (filter_by (map Path deplist) is_ood) ''jnboehm91''
              (redo_filter_list partition' is_ood) (redo_filter_list n_cpus is_ood) mem
              (redo_filter_list time_str is_ood) (redo_filter_list name is_ood)"
  from run obtain work where work: "env_WORK h = Some work"
    by (cases "env_WORK h") (simp_all add: remote_dispatch_def Let_def)
  from run work have inside: "list_all (\<lambda>dep. is_relative_to (fs_resolve h dep) (Path work)) (map Path deplist)"
    by (simp add: remote_dispatch_def Let_def split: if_splits)
  from run work inside ood obtain v tr2 where s: "?s = Some (Inr v, tr2)"
    and tr': "tr' = tr2 @ [Run (''redo-ifchange'' # map str_path (map Path deplist)) None]"
    by (auto simp: remote_dispatch_def Let_def redo_ifchange_def redo_def subprocess_call_def
          split: option.splits sum.splits prod.splits)
  from slurm_success_trace [OF s] tr' show ?thesis by auto
qed


lemma launch_jobs_nth:
  assumes "k < length (launch_jobs deplist partition' n_cpus mem time_str names)"
  shows "launch_jobs deplist partition' n_cpus mem time_str names ! k =
           \<lparr>job_name = job_names (length deplist) names ! k, job_dep = deplist ! k,
            job_part = broadcast (length deplist) partition' ! k,
            job_n_cpu = broadcast (length deplist) n_cpus ! k,
            job_m = broadcast (length deplist) mem ! k,
            job_t = broadcast (length deplist) time_str ! k\<rparr>"
  using assms by (simp add: launch_jobs_def Let_def)

lemma redo_filter_list_PyList: "redo_filter_list (PyList xs) bools = PyList (filter_by xs bools)"
  by (simp add: redo_filter_list_def filter_by_def)

text \<open>
  C10: the remote mode hands the memory field to the submitter as it was given, while
  it filters the target list and the partition, CPU-count, time-limit and name lists
  by the staleness results. With a memory list \<open>ms\<close>, the \<open>k\<close>-th job prepared is for
  the \<open>k\<close>-th stale target and takes its partition, CPU count, time limit and name from
  the \<open>k\<close>-th entries of the filtered lists, but its memory from \<open>ms ! k\<close>, the \<open>k\<close>-th
  entry of the unfiltered list: the memory of the target at position \<open>k\<close> of the
  original list. A run that returns normally has submitted exactly these jobs, in
  order, right after the oracle call.
\<close>

theorem mem_paired_by_position:
  assumes ood: "redo_ood_list w tr (map Path deplist) = (is_ood, tr0)"
    and jobs: "jobs = launch_jobs (filter_by (map Path deplist) is_ood)
                 (redo_filter_list partition' is_ood) (redo_filter_list n_cpus is_ood) (PyList ms)
                 (redo_filter_list time_str is_ood) (redo_filter_list name is_ood)"
  shows "(\<forall>k<length jobs.
            job_dep (jobs ! k) = filter_by (map Path deplist) is_ood ! k
          \<and> job_m (jobs ! k) = ms ! k
          \<and> (\<forall>ps. partition' = PyList ps \<longrightarrow> job_part (jobs ! k) = filter_by ps is_ood ! k)
          \<and> (\<forall>cs. n_cpus = PyList cs \<longrightarrow> job_n_cpu (jobs ! k) = filter_by cs is_ood ! k)
          \<and> (\<forall>ts. time_str = PyList ts \<longrightarrow> job_t (jobs ! k) = filter_by ts is_ood ! k)
          \<and> (\<forall>ns. name = PyList ns \<longrightarrow> job_name (jobs ! k) = filter_by ns is_ood ! k))
       \<and> (\<forall>tr'. env_USER h = Some ''jnboehm91'' \<and>
              redo_ifchange_slurm h w tr deplist partition' n_cpus (PyList ms) time_str name
                = Some (Inr (), tr') \<longrightarrow>
            (\<exists>rest. tr' = tr0 @ concat (map submit_calls jobs) @ rest))"
proof (intro conjI allI impI)
  fix k assume k: "k < length jobs"
  note nth = launch_jobs_nth [OF k [unfolded jobs], folded jobs]
  show "job_dep (jobs ! k) = filter_by (map Path deplist) is_ood ! k"
    by (simp add: nth)
  show "job_m (jobs ! k) = ms ! k"
    by (simp add: nth broadcast_def)
  show "job_part (jobs ! k) = filter_by ps is_ood ! k" if "partition' = PyList ps" for ps
    by (simp add: nth that redo_filter_list_PyList broadcast_def)
  show "job_n_cpu (jobs ! k) = filter_by cs is_ood ! k" if "n_cpus = PyList cs" for cs
    by (simp add: nth that redo_filter_list_PyList broadcast_def)
  show "job_t (jobs ! k) = filter_by ts is_ood ! k" if "time_str = PyList ts" for ts
    by (simp add: nth that redo_filter_list_PyList broadcast_def)
  show "job_name (jobs ! k) = filter_by ns is_ood ! k" if "name = PyList ns" for ns
    by (simp add: nth that redo_filter_list_PyList job_names_def)
next
  fix tr'
  assume "env_USER h = Some ''jnboehm91'' \<and>
          redo_ifchange_slurm h w tr deplist partition' n_cpus (PyList ms) time_str name
            = Some (Inr (), tr')"
  then have "remote_dispatch h w tr deplist partition' n_cpus (PyList ms) time_str name = Some (Inr (), tr')"
    by (auto simp: redo_ifchange_slurm_def Let_def split: if_splits)
  from remote_success_trace [OF ood this]
  show "\<exists>rest. tr' = tr0 @ concat (map submit_calls jobs) @ rest"
    unfolding jobs .
qed


lemma ood_one_stale:
  "redo_ood_list world_one_stale [] (map Path [''/work/a.out'', ''/work/b.out''])
     = ([False, True], [Run [''redo-ood'', ''/work/a.out'', ''/work/b.out''] None])"
  by (simp add: redo_ood_list_def subprocess_run_def world_one_stale_def proc_of_def Path_a Path_b
        str_path_a str_path_b split_def)

lemma jobs_one_stale:
  "launch_jobs (filter_by (map Path [''/work/a.out'', ''/work/b.out'']) [False, True])
     (redo_filter_list (PyList [Some ''cpu-short'', Some ''gpu-v100'']) [False, True])
     (redo_filter_list (Scalar None) [False, True]) (PyList [Some ''1G'', Some ''2G''])
     (redo_filter_list (Scalar None) [False, True])
     (redo_filter_list (Scalar None) [False, True]) = [job_b_mem]"
  by (simp add: launch_jobs_def filter_by_def redo_filter_list_def broadcast_def job_names_def
        default_name_0 Path_a Path_b job_b_mem_def)

lemma submit_b_mem:
  "submit_jobs world_one_stale [Run [''redo-ood'', ''/work/a.out'', ''/work/b.out''] None] [job_b_mem] []
     = (Inr [''17''], [Run [''redo-ood'', ''/work/a.out'', ''/work/b.out''] None] @ submit_calls job_b_mem)"
  by (simp add: subprocess_run_def world_one_stale_def proc_of_def match_17 submit_calls_def)

lemma run_one_stale:
  "redo_ifchange_slurm host_remote world_one_stale [] [''/work/a.out'', ''/work/b.out'']
       (PyList [Some ''cpu-short'', Some ''gpu-v100'']) (Scalar None)
       (PyList [Some ''1G'', Some ''2G'']) (Scalar None) (Scalar None)
     = Some (Inr (),
             [Run [''redo-ood'', ''/work/a.out'', ''/work/b.out''] None]
               @ submit_calls job_b_mem
               @ [Run (squeue_argv ''jnboehm91'' ''17'' ''redo00'') None,
                  Run [''redo-ifchange'', ''/work/a.out'', ''/work/b.out''] None])"
proof -
  let ?tr0 = "[Run [''redo-ood'', ''/work/a.out'', ''/work/b.out''] None]"
  let ?q = "squeue_argv ''jnboehm91'' ''17'' ''redo00''"
  have idle: "poll world_one_stale ?q (?tr0 @ submit_calls job_b_mem)
                = Some (Inr (), (?tr0 @ submit_calls job_b_mem) @ [Run ?q None])"
    by (rule poll_step_idle) (simp_all add: world_one_stale_def proc_of_def submit_calls_def)
  have names: "join '','' (job_names (length (filter_by (map Path [''/work/a.out'', ''/work/b.out'']) [False, True]))
                 (redo_filter_list (Scalar None) [False, True])) = ''redo00''"
    by (simp add: filter_by_def job_names_def redo_filter_list_def default_name_0)
  have ids: "join '','' [''17''] = ''17''"
    by simp
  note launch = slurm_launch_run [OF jobs_one_stale submit_b_mem names ids idle]
  have work: "env_WORK host_remote = Some ''/work''"
    by (simp add: host_remote_def)
  have inside: "list_all (\<lambda>dep. is_relative_to (fs_resolve host_remote dep) (Path ''/work''))
     (map Path [''/work/a.out'', ''/work/b.out''])"
    by (rule inside_work)
  note run = remote_dispatch_run [OF work inside ood_one_stale launch]
  show ?thesis
    by (simp add: redo_ifchange_slurm_def host_remote_def run [unfolded host_remote_def]
          Path_a Path_b str_path_a str_path_b)
qed

theorem mem_paired_by_position_witness:
  "filter_by (map Path [''/work/a.out'', ''/work/b.out'']) [False, True] = [[''/'', ''work'', ''b.out'']]
   \<and> job_dep ([job_b_mem] ! 0) = [''/'', ''work'', ''b.out'']
   \<and> job_part ([job_b_mem] ! 0) = Some ''gpu-v100''
   \<and> job_m ([job_b_mem] ! 0) = [Some ''1G'', Some ''2G''] ! 0
   \<and> [Some ''1G'', Some ''2G''] ! 0 \<noteq> [Some ''1G'', Some ''2G''] ! 1
   \<and> (\<exists>rest. [Run [''redo-ood'', ''/work/a.out'', ''/work/b.out''] None]
               @ submit_calls job_b_mem
               @ [Run (squeue_argv ''jnboehm91'' ''17'' ''redo00'') None,
                  Run [''redo-ifchange'', ''/work/a.out'', ''/work/b.out''] None]
             = [Run [''redo-ood'', ''/work/a.out'', ''/work/b.out''] None]
               @ concat (map submit_calls [job_b_mem]) @ rest)"
proof -
  note inst = mem_paired_by_position [OF ood_one_stale jobs_one_stale [symmetric], of host_remote]
  have stale: "filter_by (map Path [''/work/a.out'', ''/work/b.out'']) [False, True] = [[''/'', ''work'', ''b.out'']]"
    by (simp add: filter_by_def Path_a Path_b)
  have parts: "filter_by [Some ''cpu-short'', Some ''gpu-v100''] [False, True] = [Some ''gpu-v100'']"
    by (simp add: filter_by_def)
  have k: "0 < length [job_b_mem]"
    by simp
  from inst have "\<forall>k<length [job_b_mem].
            job_dep ([job_b_mem] ! k) = filter_by (map Path [''/work/a.out'', ''/work/b.out'']) [False, True] ! k
          \<and> job_m ([job_b_mem] ! k) = [Some ''1G'', Some ''2G''] ! k
          \<and> (\<forall>ps. PyList [Some ''cpu-short'', Some ''gpu-v100''] = PyList ps \<longrightarrow>
                job_part ([job_b_mem] ! k) = filter_by ps [False, True] ! k)"
    by blast
  from this [rule_format, OF k]
  have raw: "job_dep ([job_b_mem] ! 0) = filter_by (map Path [''/work/a.out'', ''/work/b.out'']) [False, True] ! 0"
    and m: "job_m ([job_b_mem] ! 0) = [Some ''1G'', Some ''2G''] ! 0"
    and rawp: "job_part ([job_b_mem] ! 0) = filter_by [Some ''cpu-short'', Some ''gpu-v100''] [False, True] ! 0"
    by blast+
  from raw have dep: "job_dep ([job_b_mem] ! 0) = [''/'', ''work'', ''b.out'']"
    unfolding stale by simp
  from rawp have part: "job_part ([job_b_mem] ! 0) = Some ''gpu-v100''"
    unfolding parts by simp
  have user: "env_USER host_remote = Some ''jnboehm91''"
    by (simp add: host_remote_def)
  from inst user run_one_stale
  have tr: "\<exists>rest. [Run [''redo-ood'', ''/work/a.out'', ''/work/b.out''] None]
               @ submit_calls job_b_mem
               @ [Run (squeue_argv ''jnboehm91'' ''17'' ''redo00'') None,
                  Run [''redo-ifchange'', ''/work/a.out'', ''/work/b.out''] None]
             = [Run [''redo-ood'', ''/work/a.out'', ''/work/b.out''] None]
               @ concat (map submit_calls [job_b_mem]) @ rest"
    by blast
  have "[Some ''1G'', Some ''2G''] ! 0 \<noteq> [Some ''1G'', Some ''2G''] ! 1"
    by simp
  with stale dep m part tr show ?thesis
    by blast
qed


end
